theory Spec2Isabelle
  imports Main
begin

section \<open>Best V3 trade selection (src/hooks/useBestV3Trade.ts)\<close>

subsection \<open>Data model\<close>

text \<open>
  The enum \<^verbatim>\<open>V3TradeState\<close> of the source, with its five members.
\<close>

datatype V3TradeState = LOADING | INVALID | NO_ROUTE_FOUND | VALID | SYNCING

text \<open>
  A token is identified by its address. A currency is the native one or a token
  (the source tests \<^verbatim>\<open>currencyOut instanceof Token\<close>). A currency amount carries
  its currency and its raw integer amount.
\<close>

type_synonym Token = string

datatype Currency = ETHER | TokenCurrency Token

record CurrencyAmount =
  currency :: Currency
  raw :: nat

text \<open>
  Of a route the selection reads only \<^verbatim>\<open>tokenPath\<close>, the ordered tokens of the path.
\<close>

record Route =
  tokenPath :: "Token list"

datatype TradeType = EXACT_INPUT | EXACT_OUTPUT

record Trade =
  route :: Route
  tradeType :: TradeType
  inputAmount :: CurrencyAmount
  outputAmount :: CurrencyAmount

text \<open>
  One entry of \<^verbatim>\<open>quotesResults\<close>. The callbacks of the source destructure
  \<^verbatim>\<open>valid\<close>, \<^verbatim>\<open>result\<close>, \<^verbatim>\<open>loading\<close> and \<^verbatim>\<open>syncing\<close>. A present
  \<^verbatim>\<open>result\<close> carries the quoted amount (\<^verbatim>\<open>result.amountOut\<close> for exact input,
  \<^verbatim>\<open>result.amountIn\<close> for exact output), an unsigned big integer returned by the quoter.
\<close>

record CallState =
  valid :: bool
  result :: "nat option"
  loading :: bool
  syncing :: bool

text \<open>The value returned by both hooks: \<^verbatim>\<open>{ state, trade }\<close>, with \<^verbatim>\<open>trade: Trade | null\<close>.\<close>

record SelectionResult =
  state :: V3TradeState
  trade :: "Trade option"

text \<open>
  The accumulator of both reductions: \<^verbatim>\<open>{ bestRoute, amountOut }\<close> for exact input and
  \<^verbatim>\<open>{ bestRoute, amountIn }\<close> for exact output. The field \<open>amount\<close> stands for
  \<^verbatim>\<open>amountOut\<close> respectively \<^verbatim>\<open>amountIn\<close>. \<open>None\<close> in \<open>bestRoute\<close> is
  \<^verbatim>\<open>null\<close> or \<^verbatim>\<open>undefined\<close>; \<open>None\<close> in \<open>amount\<close> is \<^verbatim>\<open>null\<close>.
\<close>

record CurrentBest =
  bestRoute :: "Route option"
  amount :: "nat option"

text \<open>
  Reading a property of \<^verbatim>\<open>undefined\<close> throws a \<^verbatim>\<open>TypeError\<close>; the source does so
  in \<^verbatim>\<open>routes[i].tokenPath\<close> when \<^verbatim>\<open>routes\<close> has no index \<^verbatim>\<open>i\<close>.
\<close>

datatype error = TypeError

subsection \<open>Exact fractions of the SDK\<close>

text \<open>
  \<^verbatim>\<open>Percent\<close> of @uniswap/sdk-core is a \<^verbatim>\<open>Fraction\<close>: a numerator and a denominator,
  two big integers that are stored as given (no normalisation, no check of the denominator).
  \<^verbatim>\<open>subtract\<close> keeps the denominator when both denominators are equal and cross-multiplies
  otherwise; \<^verbatim>\<open>lessThan\<close> and \<^verbatim>\<open>greaterThan\<close> compare the cross products.
  A zero denominator is therefore not an error: the comparisons go through with it.
  \<^verbatim>\<open>JSBI.BigInt(amount)\<close> of a quoted amount is the integer of that amount.
\<close>

record Fraction =
  numerator :: int
  denominator :: int

definition Percent :: "int \<Rightarrow> int \<Rightarrow> Fraction" where
  "Percent n d = \<lparr>numerator = n, denominator = d\<rparr>"

definition subtract :: "Fraction \<Rightarrow> Fraction \<Rightarrow> Fraction" where
  "subtract a b =
     (if denominator a = denominator b
      then \<lparr>numerator = numerator a - numerator b, denominator = denominator a\<rparr>
      else \<lparr>numerator = numerator a * denominator b - numerator b * denominator a,
            denominator = denominator a * denominator b\<rparr>)"

definition lessThan_Fraction :: "Fraction \<Rightarrow> Fraction \<Rightarrow> bool" where
  "lessThan_Fraction a b \<longleftrightarrow> numerator a * denominator b < numerator b * denominator a"

definition greaterThan_Fraction :: "Fraction \<Rightarrow> Fraction \<Rightarrow> bool" where
  "greaterThan_Fraction a b \<longleftrightarrow> numerator a * denominator b > numerator b * denominator a"

text \<open>
  The three constants that the source imports from \<^verbatim>\<open>constants/index\<close>. They are
  parameters of every definition below.
\<close>

record Constants =
  ONE_BIPS :: Fraction
  BETTER_TRADE_LESS_HOPS_THRESHOLD :: Fraction
  ONE_HUNDRED_PERCENT :: Fraction

text \<open>
  Modelled from the spec: \<^verbatim>\<open>constants/index\<close> is not among the sources. The spec gives
  \<^verbatim>\<open>ONE_BIPS\<close> as 1/10000 and uses a threshold of 50 basis points in its scenarios;
  one hundred percent is the fraction 1/1. Used for concrete evaluations only.
\<close>

definition constants_index :: Constants where
  "constants_index =
     \<lparr>ONE_BIPS = Percent 1 10000,
      BETTER_TRADE_LESS_HOPS_THRESHOLD = Percent 50 10000,
      ONE_HUNDRED_PERCENT = Percent 1 1\<rparr>"

subsection \<open>The reduction for an exact input (lines 57 to 89)\<close>

text \<open>\<^verbatim>\<open>routes[i]\<close>: \<^verbatim>\<open>undefined\<close> out of range.\<close>

definition index :: "'a list \<Rightarrow> nat \<Rightarrow> 'a option" where
  "index xs i = (if i < length xs then Some (xs ! i) else None)"

text \<open>
  \<^verbatim>\<open>amountRatio.subtract(ONE_BIPS).lessThan(BETTER_TRADE_LESS_HOPS_THRESHOLD)\<close> with
  \<^verbatim>\<open>amountRatio = new Percent(currentBest.amountOut, result.amountOut)\<close>.
\<close>

definition belowThresholdExactIn :: "Constants \<Rightarrow> nat \<Rightarrow> nat \<Rightarrow> bool" where
  "belowThresholdExactIn k currentAmount resultAmount =
     lessThan_Fraction
       (subtract (Percent (int currentAmount) (int resultAmount)) (ONE_BIPS k))
       (BETTER_TRADE_LESS_HOPS_THRESHOLD k)"

text \<open>
  The callback of \<^verbatim>\<open>reduce\<close>. \<^verbatim>\<open>hopsCurrentBest\<close> is
  \<^verbatim>\<open>currentBest.bestRoute?.tokenPath?.length\<close>, \<^verbatim>\<open>undefined\<close> without a route; as an
  operand of \<^verbatim>\<open>&&\<close> it counts as true when it is a number other than 0.
\<close>

definition reducerExactIn ::
  "Constants \<Rightarrow> Route list \<Rightarrow> CurrentBest \<Rightarrow> CallState \<Rightarrow> nat \<Rightarrow> error + CurrentBest" where
  "reducerExactIn k routes currentBest q i =
     (case result q of
        None \<Rightarrow> Inr currentBest
      | Some resultAmount \<Rightarrow>
          (case amount currentBest of
             None \<Rightarrow> Inr \<lparr>bestRoute = index routes i, amount = Some resultAmount\<rparr>
           | Some currentAmount \<Rightarrow>
               (let hopsCurrentBest = map_option (\<lambda>r. length (tokenPath r)) (bestRoute currentBest)
                in case index routes i of
                     None \<Rightarrow> Inl TypeError
                   | Some r \<Rightarrow>
                       (let hopsResult = length (tokenPath r);
                            belowThreshold = belowThresholdExactIn k currentAmount resultAmount;
                            resultBetterThanCurrent = (currentAmount < resultAmount)
                        in if (\<not> resultBetterThanCurrent \<and>
                               (case hopsCurrentBest of
                                  None \<Rightarrow> False
                                | Some h \<Rightarrow> h \<noteq> 0 \<and> belowThreshold \<and> hopsResult < h))
                              \<or> resultBetterThanCurrent
                           then Inr \<lparr>bestRoute = Some r, amount = Some resultAmount\<rparr>
                           else Inr currentBest))))"

text \<open>
  \<^verbatim>\<open>quotesResults.reduce(callback, initial)\<close>: the entries from left to right, each with
  its index; an exception of the callback ends the reduction.
\<close>

fun reduceExactIn ::
  "Constants \<Rightarrow> Route list \<Rightarrow> CurrentBest \<Rightarrow> nat \<Rightarrow> CallState list \<Rightarrow> error + CurrentBest" where
  "reduceExactIn k routes currentBest i [] = Inr currentBest"
| "reduceExactIn k routes currentBest i (q # qs) =
     (case reducerExactIn k routes currentBest q i of
        Inl e \<Rightarrow> Inl e
      | Inr currentBest' \<Rightarrow> reduceExactIn k routes currentBest' (Suc i) qs)"

definition initialBest :: CurrentBest where
  "initialBest = \<lparr>bestRoute = None, amount = None\<rparr>"

subsection \<open>The reduction for an exact output (lines 151 to 185)\<close>

text \<open>
  \<^verbatim>\<open>ONE_HUNDRED_PERCENT.subtract(amountRatio).greaterThan(BETTER_TRADE_LESS_HOPS_THRESHOLD)\<close>
  with \<^verbatim>\<open>amountRatio = new Percent(result.amountIn, currentBest.amountIn)\<close>.
\<close>

definition belowThresholdExactOut :: "Constants \<Rightarrow> nat \<Rightarrow> nat \<Rightarrow> bool" where
  "belowThresholdExactOut k currentAmount resultAmount =
     greaterThan_Fraction
       (subtract (ONE_HUNDRED_PERCENT k) (Percent (int resultAmount) (int currentAmount)))
       (BETTER_TRADE_LESS_HOPS_THRESHOLD k)"

definition reducerExactOut ::
  "Constants \<Rightarrow> Route list \<Rightarrow> CurrentBest \<Rightarrow> CallState \<Rightarrow> nat \<Rightarrow> error + CurrentBest" where
  "reducerExactOut k routes currentBest q i =
     (case result q of
        None \<Rightarrow> Inr currentBest
      | Some resultAmount \<Rightarrow>
          (case amount currentBest of
             None \<Rightarrow> Inr \<lparr>bestRoute = index routes i, amount = Some resultAmount\<rparr>
           | Some currentAmount \<Rightarrow>
               (let hopsCurrentBest = map_option (\<lambda>r. length (tokenPath r)) (bestRoute currentBest)
                in case index routes i of
                     None \<Rightarrow> Inl TypeError
                   | Some r \<Rightarrow>
                       (let hopsResult = length (tokenPath r);
                            belowThreshold = belowThresholdExactOut k currentAmount resultAmount;
                            resultBetterThanCurrent = (currentAmount > resultAmount)
                        in if (case hopsCurrentBest of
                                 None \<Rightarrow> False
                               | Some h \<Rightarrow> h \<noteq> 0 \<and> \<not> resultBetterThanCurrent \<and>
                                   belowThreshold \<and> hopsResult < h)
                              \<or> resultBetterThanCurrent
                           then Inr \<lparr>bestRoute = Some r, amount = Some resultAmount\<rparr>
                           else Inr currentBest))))"

fun reduceExactOut ::
  "Constants \<Rightarrow> Route list \<Rightarrow> CurrentBest \<Rightarrow> nat \<Rightarrow> CallState list \<Rightarrow> error + CurrentBest" where
  "reduceExactOut k routes currentBest i [] = Inr currentBest"
| "reduceExactOut k routes currentBest i (q # qs) =
     (case reducerExactOut k routes currentBest q i of
        Inl e \<Rightarrow> Inl e
      | Inr currentBest' \<Rightarrow> reduceExactOut k routes currentBest' (Suc i) qs)"

subsection \<open>The two selectors\<close>

text \<open>
  \<^verbatim>\<open>new TokenAmount(currency, amount)\<close> for a token and \<^verbatim>\<open>CurrencyAmount.ether(amount)\<close>
  otherwise, and \<^verbatim>\<open>Trade.createUncheckedTrade\<close>, which stores its four arguments.
  The amounts are outputs of the quoter, which the constructors of the SDK accept.
\<close>

definition TokenAmount :: "Token \<Rightarrow> nat \<Rightarrow> CurrencyAmount" where
  "TokenAmount t a = \<lparr>currency = TokenCurrency t, raw = a\<rparr>"

definition ether :: "nat \<Rightarrow> CurrencyAmount" where
  "ether a = \<lparr>currency = ETHER, raw = a\<rparr>"

definition createUncheckedTrade ::
  "Route \<Rightarrow> TradeType \<Rightarrow> CurrencyAmount \<Rightarrow> CurrencyAmount \<Rightarrow> Trade" where
  "createUncheckedTrade r t i o' =
     \<lparr>route = r, tradeType = t, inputAmount = i, outputAmount = o'\<rparr>"

text \<open>
  The function given to the second \<^verbatim>\<open>useMemo\<close> of \<^verbatim>\<open>useBestV3TradeExactIn\<close>
  (lines 42 to 112), over what the hooks called before it have returned:
  \<^verbatim>\<open>routes\<close>, \<^verbatim>\<open>routesLoading\<close> and \<^verbatim>\<open>quotesResults\<close>.
\<close>

definition useBestV3TradeExactIn ::
  "Constants \<Rightarrow> CurrencyAmount option \<Rightarrow> Currency option \<Rightarrow> Route list \<Rightarrow> bool \<Rightarrow>
   CallState list \<Rightarrow> error + SelectionResult" where
  "useBestV3TradeExactIn k amountIn currencyOut routes routesLoading quotesResults =
     (case (amountIn, currencyOut) of
        (Some amountIn', Some currencyOut') \<Rightarrow>
          if routesLoading \<or> list_ex loading quotesResults
          then Inr \<lparr>state = LOADING, trade = None\<rparr>
          else
            (case reduceExactIn k routes initialBest 0 quotesResults of
               Inl e \<Rightarrow> Inl e
             | Inr best \<Rightarrow>
                 (case (bestRoute best, amount best) of
                    (Some bestRoute', Some amountOut) \<Rightarrow>
                      (let isSyncing = list_ex syncing quotesResults
                       in Inr \<lparr>state = (if isSyncing then SYNCING else VALID),
                               trade = Some (createUncheckedTrade bestRoute' EXACT_INPUT amountIn'
                                 (case currencyOut' of
                                    TokenCurrency t \<Rightarrow> TokenAmount t amountOut
                                  | ETHER \<Rightarrow> ether amountOut))\<rparr>)
                  | _ \<Rightarrow> Inr \<lparr>state = NO_ROUTE_FOUND, trade = None\<rparr>))
      | _ \<Rightarrow> Inr \<lparr>state = INVALID, trade = None\<rparr>)"

text \<open>
  The function given to the second \<^verbatim>\<open>useMemo\<close> of \<^verbatim>\<open>useBestV3TradeExactOut\<close>
  (lines 136 to 208).
\<close>

definition useBestV3TradeExactOut ::
  "Constants \<Rightarrow> Currency option \<Rightarrow> CurrencyAmount option \<Rightarrow> Route list \<Rightarrow> bool \<Rightarrow>
   CallState list \<Rightarrow> error + SelectionResult" where
  "useBestV3TradeExactOut k currencyIn amountOut routes routesLoading quotesResults =
     (case (amountOut, currencyIn) of
        (Some amountOut', Some currencyIn') \<Rightarrow>
          if list_ex (\<lambda>q. \<not> valid q) quotesResults
          then Inr \<lparr>state = INVALID, trade = None\<rparr>
          else if routesLoading \<or> list_ex loading quotesResults
          then Inr \<lparr>state = LOADING, trade = None\<rparr>
          else
            (case reduceExactOut k routes initialBest 0 quotesResults of
               Inl e \<Rightarrow> Inl e
             | Inr best \<Rightarrow>
                 (case (bestRoute best, amount best) of
                    (Some bestRoute', Some amountIn) \<Rightarrow>
                      (let isSyncing = list_ex syncing quotesResults
                       in Inr \<lparr>state = (if isSyncing then SYNCING else VALID),
                               trade = Some (createUncheckedTrade bestRoute' EXACT_OUTPUT
                                 (case currencyIn' of
                                    TokenCurrency t \<Rightarrow> TokenAmount t amountIn
                                  | ETHER \<Rightarrow> ether amountIn)
                                 amountOut')\<rparr>)
                  | _ \<Rightarrow> Inr \<lparr>state = NO_ROUTE_FOUND, trade = None\<rparr>))
      | _ \<Rightarrow> Inr \<lparr>state = INVALID, trade = None\<rparr>)"

subsection \<open>Memoisation of the result\<close>

text \<open>
  Both hooks return \<^verbatim>\<open>useMemo(create, deps)\<close>. The cell of the hook keeps the
  dependencies and the value of the last computation; the value is reused when the
  dependencies have not changed and computed again otherwise. Unchanged dependencies are
  equal ones; where equal dependencies are held under new references the value is
  computed again from equal inputs. An exception of \<^verbatim>\<open>create\<close> leaves the cell
  as it was. The dependencies are, in the order of the source,
  \<^verbatim>\<open>[amountIn, currencyOut, quotesResults, routes, routesLoading]\<close> for an exact input and
  \<^verbatim>\<open>[amountOut, currencyIn, quotesResults, routes, routesLoading]\<close> for an exact output.
\<close>

type_synonym Deps = "CurrencyAmount option \<times> Currency option \<times> CallState list \<times> Route list \<times> bool"

type_synonym MemoCell = "(Deps \<times> SelectionResult) option"

definition useMemo ::
  "('d \<times> 'v) option \<Rightarrow> (unit \<Rightarrow> error + 'v) \<Rightarrow> 'd \<Rightarrow> (error + 'v) \<times> ('d \<times> 'v) option" where
  "useMemo cell create deps =
     (let compute = (case create () of
                       Inl e \<Rightarrow> (Inl e, cell)
                     | Inr v \<Rightarrow> (Inr v, Some (deps, v)))
      in case cell of
           None \<Rightarrow> compute
         | Some (prevDeps, v) \<Rightarrow> if prevDeps = deps then (Inr v, cell) else compute)"

definition useBestV3TradeExactIn_memo ::
  "Constants \<Rightarrow> MemoCell \<Rightarrow> CurrencyAmount option \<Rightarrow> Currency option \<Rightarrow> Route list \<Rightarrow> bool \<Rightarrow>
   CallState list \<Rightarrow> (error + SelectionResult) \<times> MemoCell" where
  "useBestV3TradeExactIn_memo k cell amountIn currencyOut routes routesLoading quotesResults =
     useMemo cell
       (\<lambda>_. useBestV3TradeExactIn k amountIn currencyOut routes routesLoading quotesResults)
       (amountIn, currencyOut, quotesResults, routes, routesLoading)"

definition useBestV3TradeExactOut_memo ::
  "Constants \<Rightarrow> MemoCell \<Rightarrow> Currency option \<Rightarrow> CurrencyAmount option \<Rightarrow> Route list \<Rightarrow> bool \<Rightarrow>
   CallState list \<Rightarrow> (error + SelectionResult) \<times> MemoCell" where
  "useBestV3TradeExactOut_memo k cell currencyIn amountOut routes routesLoading quotesResults =
     useMemo cell
       (\<lambda>_. useBestV3TradeExactOut k currencyIn amountOut routes routesLoading quotesResults)
       (amountOut, currencyIn, quotesResults, routes, routesLoading)"

text \<open>
  One invocation of a hook: the fixed amount, the other currency, and the routes, the
  loading flag and the quotes that the hooks called before the selection have returned.
  A component calls its hook once per render, each render starting from the cell that the
  render before has left.
\<close>

type_synonym Invocation = "CurrencyAmount option \<times> Currency option \<times> Route list \<times> bool \<times> CallState list"

fun rendersExactIn :: "Constants \<Rightarrow> MemoCell \<Rightarrow> Invocation list \<Rightarrow> (error + SelectionResult) list" where
  "rendersExactIn k cell [] = []"
| "rendersExactIn k cell ((amountIn, currencyOut, routes, routesLoading, quotesResults) # xs) =
     (case useBestV3TradeExactIn_memo k cell amountIn currencyOut routes routesLoading quotesResults of
        (r, cell') \<Rightarrow> r # rendersExactIn k cell' xs)"

fun rendersExactOut :: "Constants \<Rightarrow> MemoCell \<Rightarrow> Invocation list \<Rightarrow> (error + SelectionResult) list" where
  "rendersExactOut k cell [] = []"
| "rendersExactOut k cell ((amountOut, currencyIn, routes, routesLoading, quotesResults) # xs) =
     (case useBestV3TradeExactOut_memo k cell currencyIn amountOut routes routesLoading quotesResults of
        (r, cell') \<Rightarrow> r # rendersExactOut k cell' xs)"

subsection \<open>The reducers and the state rule as the specification words them\<close>

text \<open>The specification derives the hop count of a route: the length of its token path minus one.\<close>

definition hopCount :: "Route \<Rightarrow> int" where
  "hopCount r = int (length (tokenPath r)) - 1"

text \<open>
  Exact input, with \<open>B\<close> the amount of the current best and \<open>R\<close> the amount of the
  candidate: \<open>withinThreshold = (Percent(B, R) - ONE_BIPS) < BETTER_TRADE_LESS_HOPS_THRESHOLD\<close>.
\<close>

definition spec_withinThresholdExactIn :: "Constants \<Rightarrow> nat \<Rightarrow> nat \<Rightarrow> bool" where
  "spec_withinThresholdExactIn k B R =
     lessThan_Fraction (subtract (Percent (int B) (int R)) (ONE_BIPS k))
       (BETTER_TRADE_LESS_HOPS_THRESHOLD k)"

text \<open>
  One step of the fold over the aligned pairs: a pair without an amount is skipped, the
  first pair with an amount is adopted, and afterwards the candidate replaces the current
  best exactly under the stated condition.
\<close>

definition spec_stepExactIn :: "Constants \<Rightarrow> CurrentBest \<Rightarrow> Route \<times> CallState \<Rightarrow> CurrentBest" where
  "spec_stepExactIn k best p =
     (case p of (r, q) \<Rightarrow>
        (case result q of
           None \<Rightarrow> best
         | Some R \<Rightarrow>
             (case amount best of
                None \<Rightarrow> \<lparr>bestRoute = Some r, amount = Some R\<rparr>
              | Some B \<Rightarrow>
                  if B < R \<or>
                     (B \<ge> R \<and>
                      (case bestRoute best of
                         None \<Rightarrow> False
                       | Some b \<Rightarrow> spec_withinThresholdExactIn k B R \<and> hopCount r < hopCount b))
                  then \<lparr>bestRoute = Some r, amount = Some R\<rparr>
                  else best)))"

definition spec_foldExactIn :: "Constants \<Rightarrow> Route list \<Rightarrow> CallState list \<Rightarrow> CurrentBest" where
  "spec_foldExactIn k routes quotes = foldl (spec_stepExactIn k) initialBest (zip routes quotes)"

text \<open>
  Exact output, with \<open>B\<close> the input of the current best and \<open>R\<close> the input of the
  candidate: \<open>withinThreshold = (ONE_HUNDRED_PERCENT - Percent(R, B)) > BETTER_TRADE_LESS_HOPS_THRESHOLD\<close>.
\<close>

definition spec_withinThresholdExactOut :: "Constants \<Rightarrow> nat \<Rightarrow> nat \<Rightarrow> bool" where
  "spec_withinThresholdExactOut k B R =
     greaterThan_Fraction (subtract (ONE_HUNDRED_PERCENT k) (Percent (int R) (int B)))
       (BETTER_TRADE_LESS_HOPS_THRESHOLD k)"

definition spec_stepExactOut :: "Constants \<Rightarrow> CurrentBest \<Rightarrow> Route \<times> CallState \<Rightarrow> CurrentBest" where
  "spec_stepExactOut k best p =
     (case p of (r, q) \<Rightarrow>
        (case result q of
           None \<Rightarrow> best
         | Some R \<Rightarrow>
             (case amount best of
                None \<Rightarrow> \<lparr>bestRoute = Some r, amount = Some R\<rparr>
              | Some B \<Rightarrow>
                  if B > R \<or>
                     (B \<le> R \<and>
                      (case bestRoute best of
                         None \<Rightarrow> False
                       | Some b \<Rightarrow> spec_withinThresholdExactOut k B R \<and> hopCount r < hopCount b))
                  then \<lparr>bestRoute = Some r, amount = Some R\<rparr>
                  else best)))"

definition spec_foldExactOut :: "Constants \<Rightarrow> Route list \<Rightarrow> CallState list \<Rightarrow> CurrentBest" where
  "spec_foldExactOut k routes quotes = foldl (spec_stepExactOut k) initialBest (zip routes quotes)"

text \<open>
  The transition rule of the specification for an exact input, first match first. The
  reduction yields no winner when the fold ends without a best route.
\<close>

definition spec_stateExactIn ::
  "Constants \<Rightarrow> CurrencyAmount option \<Rightarrow> Currency option \<Rightarrow> Route list \<Rightarrow> bool \<Rightarrow>
   CallState list \<Rightarrow> V3TradeState" where
  "spec_stateExactIn k amountIn currencyOut routes routesLoading quotes =
     (if amountIn = None \<or> currencyOut = None then INVALID
      else if routesLoading \<or> (\<exists>q \<in> set quotes. loading q) then LOADING
      else if bestRoute (spec_foldExactIn k routes quotes) = None then NO_ROUTE_FOUND
      else if (\<exists>q \<in> set quotes. syncing q) then SYNCING
      else VALID)"

text \<open>
  Index \<open>i\<close> is the first one, in list order, whose quote carries the least of the usable
  amounts \<open>a\<close>: no usable amount is below \<open>a\<close>, and every usable amount before \<open>i\<close> is above.
\<close>

definition firstMinimum :: "CallState list \<Rightarrow> nat \<Rightarrow> nat \<Rightarrow> bool" where
  "firstMinimum quotes i a \<longleftrightarrow>
     i < length quotes \<and> result (quotes ! i) = Some a \<and>
     (\<forall>j < length quotes. \<forall>b. result (quotes ! j) = Some b \<longrightarrow> a \<le> b) \<and>
     (\<forall>j < i. \<forall>b. result (quotes ! j) = Some b \<longrightarrow> a < b)"

text \<open>
  The threshold as a nonnegative fraction over a positive denominator, and one hundred
  percent as a fraction of equal positive numerator and denominator.
\<close>

definition nonnegativeThreshold :: "Constants \<Rightarrow> bool" where
  "nonnegativeThreshold k \<longleftrightarrow>
     0 \<le> numerator (BETTER_TRADE_LESS_HOPS_THRESHOLD k) \<and>
     0 < denominator (BETTER_TRADE_LESS_HOPS_THRESHOLD k)"

definition wholeOneHundredPercent :: "Constants \<Rightarrow> bool" where
  "wholeOneHundredPercent k \<longleftrightarrow>
     numerator (ONE_HUNDRED_PERCENT k) = denominator (ONE_HUNDRED_PERCENT k) \<and>
     0 < denominator (ONE_HUNDRED_PERCENT k)"

subsection \<open>Sample routes and quotes\<close>

definition route1hop :: Route where
  "route1hop = \<lparr>tokenPath = [''A'', ''B'']\<rparr>"

definition route3hops :: Route where
  "route3hops = \<lparr>tokenPath = [''A'', ''C'', ''D'', ''B'']\<rparr>"

definition quote :: "nat option \<Rightarrow> CallState" where
  "quote a = \<lparr>valid = True, result = a, loading = False, syncing = False\<rparr>"

definition fixedAmount :: CurrencyAmount where
  "fixedAmount = ether 5000"

text \<open>Two invocations of a hook: one with a settled quote, one with a loading quote.\<close>

definition firstRender :: Invocation where
  "firstRender = (Some fixedAmount, Some ETHER, [route1hop], False, [quote (Some 1000)])"

definition secondRender :: Invocation where
  "secondRender =
     (Some fixedAmount, Some ETHER, [route1hop], False, [(quote None)\<lparr>loading := True\<rparr>])"

section \<open>Properties of the reducers\<close>

subsection \<open>The source reducers follow the folds of the specification\<close>

lemma reducerExactIn_spec_step:
  "i < length routes \<Longrightarrow>
   reducerExactIn k routes best q i = Inr (spec_stepExactIn k best (routes ! i, q))"
  by (auto simp: reducerExactIn_def spec_stepExactIn_def index_def hopCount_def Let_def
      spec_withinThresholdExactIn_def belowThresholdExactIn_def split: option.splits)

lemma reduceExactIn_foldl:
  "i + length qs \<le> length routes \<Longrightarrow>
   reduceExactIn k routes best i qs =
     Inr (foldl (spec_stepExactIn k) best (zip (drop i routes) qs))"
proof (induction qs arbitrary: best i)
  case Nil
  then show ?case by simp
next
  case (Cons q qs)
  then have i: "i < length routes" and rest: "Suc i + length qs \<le> length routes"
    by simp_all
  have d: "drop i routes = routes ! i # drop (Suc i) routes"
    using i by (simp add: Cons_nth_drop_Suc)
  show ?case
    using Cons.IH [OF rest] by (simp add: reducerExactIn_spec_step [OF i] d)
qed

lemma reducerExactOut_spec_step:
  "i < length routes \<Longrightarrow>
   reducerExactOut k routes best q i = Inr (spec_stepExactOut k best (routes ! i, q))"
  by (auto simp: reducerExactOut_def spec_stepExactOut_def index_def hopCount_def Let_def
      spec_withinThresholdExactOut_def belowThresholdExactOut_def split: option.splits)

lemma reduceExactOut_foldl:
  "i + length qs \<le> length routes \<Longrightarrow>
   reduceExactOut k routes best i qs =
     Inr (foldl (spec_stepExactOut k) best (zip (drop i routes) qs))"
proof (induction qs arbitrary: best i)
  case Nil
  then show ?case by simp
next
  case (Cons q qs)
  then have i: "i < length routes" and rest: "Suc i + length qs \<le> length routes"
    by simp_all
  have d: "drop i routes = routes ! i # drop (Suc i) routes"
    using i by (simp add: Cons_nth_drop_Suc)
  show ?case
    using Cons.IH [OF rest] by (simp add: reducerExactOut_spec_step [OF i] d)
qed

text \<open>
  C1. Exact input. When no quote lies beyond the routes (the two lists are aligned by
  position), the reduction of the source raises nothing and returns what the fold of the
  specification returns over the pairs of a route and its quote, from left to right and
  starting without a best: a pair without an amount is skipped, the first pair with an
  amount is adopted, and from then on a candidate with amount \<open>R\<close> replaces a best with
  amount \<open>B\<close> exactly when \<open>B < R\<close>, or \<open>B \<ge> R\<close> and the best has a route and
  \<open>(Percent(B, R) - ONE_BIPS) < BETTER_TRADE_LESS_HOPS_THRESHOLD\<close> and the candidate has
  strictly fewer hops than the best.
\<close>

theorem reduceExactIn_refines_spec:
  "length quotes \<le> length routes \<Longrightarrow>
   reduceExactIn k routes initialBest 0 quotes = Inr (spec_foldExactIn k routes quotes)"
  using reduceExactIn_foldl [of 0 quotes routes k initialBest]
  by (simp add: spec_foldExactIn_def)

text \<open>Four routes and their quotes, one without an amount: the best output, 1001, wins.\<close>

theorem reduceExactIn_refines_spec_witness:
  "length [quote (Some 1000), quote None, quote (Some 1001), quote (Some 999)]
     \<le> length [route3hops, route1hop, route3hops, route1hop] \<and>
   reduceExactIn constants_index [route3hops, route1hop, route3hops, route1hop] initialBest 0
     [quote (Some 1000), quote None, quote (Some 1001), quote (Some 999)]
   = Inr (spec_foldExactIn constants_index [route3hops, route1hop, route3hops, route1hop]
     [quote (Some 1000), quote None, quote (Some 1001), quote (Some 999)]) \<and>
   spec_foldExactIn constants_index [route3hops, route1hop, route3hops, route1hop]
     [quote (Some 1000), quote None, quote (Some 1001), quote (Some 999)]
   = \<lparr>bestRoute = Some route3hops, amount = Some 1001\<rparr>"
  using reduceExactIn_refines_spec
    [of "[quote (Some 1000), quote None, quote (Some 1001), quote (Some 999)]"
      "[route3hops, route1hop, route3hops, route1hop]" constants_index]
  by (simp add: spec_foldExactIn_def spec_stepExactIn_def quote_def initialBest_def
      spec_withinThresholdExactIn_def constants_index_def Percent_def subtract_def
      lessThan_Fraction_def hopCount_def route1hop_def route3hops_def)

text \<open>
  C2. Exact output. When no quote lies beyond the routes, the reduction of the source
  raises nothing and returns what the fold of the specification returns: pairs without an
  amount are skipped, the first pair with an amount is adopted, and from then on a
  candidate with required input \<open>R\<close> replaces a best with required input \<open>B\<close> exactly
  when \<open>B > R\<close>, or \<open>B \<le> R\<close> and the best has a route and
  \<open>(ONE_HUNDRED_PERCENT - Percent(R, B)) > BETTER_TRADE_LESS_HOPS_THRESHOLD\<close> and the
  candidate has strictly fewer hops than the best.
\<close>

theorem reduceExactOut_refines_spec:
  "length quotes \<le> length routes \<Longrightarrow>
   reduceExactOut k routes initialBest 0 quotes = Inr (spec_foldExactOut k routes quotes)"
  using reduceExactOut_foldl [of 0 quotes routes k initialBest]
  by (simp add: spec_foldExactOut_def)

text \<open>Four routes and their quotes, one without an amount: the least input, 999, wins.\<close>

theorem reduceExactOut_refines_spec_witness:
  "length [quote (Some 1000), quote None, quote (Some 1001), quote (Some 999)]
     \<le> length [route3hops, route1hop, route3hops, route1hop] \<and>
   reduceExactOut constants_index [route3hops, route1hop, route3hops, route1hop] initialBest 0
     [quote (Some 1000), quote None, quote (Some 1001), quote (Some 999)]
   = Inr (spec_foldExactOut constants_index [route3hops, route1hop, route3hops, route1hop]
     [quote (Some 1000), quote None, quote (Some 1001), quote (Some 999)]) \<and>
   spec_foldExactOut constants_index [route3hops, route1hop, route3hops, route1hop]
     [quote (Some 1000), quote None, quote (Some 1001), quote (Some 999)]
   = \<lparr>bestRoute = Some route1hop, amount = Some 999\<rparr>"
  using reduceExactOut_refines_spec
    [of "[quote (Some 1000), quote None, quote (Some 1001), quote (Some 999)]"
      "[route3hops, route1hop, route3hops, route1hop]" constants_index]
  by (simp add: spec_foldExactOut_def spec_stepExactOut_def quote_def initialBest_def
      spec_withinThresholdExactOut_def constants_index_def Percent_def subtract_def
      greaterThan_Fraction_def hopCount_def route1hop_def route3hops_def)

text \<open>
  C8. Exact input, one step of the fold at any state: when the best has amount \<open>B\<close>, the
  candidate quotes \<open>R\<close> with \<open>B < R\<close>, and the candidate's index has a route, the
  candidate becomes the best, whatever the constants (so whatever the threshold) and
  whatever the token paths of the two routes (so also when their hop counts are equal).
\<close>

theorem reducerExactIn_adopts_strictly_better:
  "amount best = Some B \<Longrightarrow> result q = Some R \<Longrightarrow> B < R \<Longrightarrow> i < length routes \<Longrightarrow>
   reducerExactIn k routes best q i = Inr \<lparr>bestRoute = Some (routes ! i), amount = Some R\<rparr>"
  by (simp add: reducerExactIn_def index_def)

text \<open>A best of 990 over one hop gives way to 1000 over three hops.\<close>

theorem reducerExactIn_adopts_strictly_better_witness:
  "amount \<lparr>bestRoute = Some route1hop, amount = Some 990\<rparr> = Some 990 \<and>
   result (quote (Some 1000)) = Some 1000 \<and> (990::nat) < 1000 \<and>
   1 < length [route1hop, route3hops] \<and>
   reducerExactIn constants_index [route1hop, route3hops]
     \<lparr>bestRoute = Some route1hop, amount = Some 990\<rparr> (quote (Some 1000)) 1
   = Inr \<lparr>bestRoute = Some route3hops, amount = Some 1000\<rparr>"
  using reducerExactIn_adopts_strictly_better
    [of "\<lparr>bestRoute = Some route1hop, amount = Some 990\<rparr>" 990 "quote (Some 1000)" 1000 1
      "[route1hop, route3hops]" constants_index]
  by (simp add: quote_def)

section \<open>Properties of the selectors\<close>

subsection \<open>The state of the result\<close>

lemma spec_stepExactIn_both_or_none:
  "(bestRoute best = None \<longleftrightarrow> amount best = None) \<Longrightarrow>
   (bestRoute (spec_stepExactIn k best p) = None \<longleftrightarrow> amount (spec_stepExactIn k best p) = None)"
  by (auto simp: spec_stepExactIn_def split: option.splits prod.splits)

lemma foldl_spec_stepExactIn_both_or_none:
  "(bestRoute best = None \<longleftrightarrow> amount best = None) \<Longrightarrow>
   (bestRoute (foldl (spec_stepExactIn k) best ps) = None
      \<longleftrightarrow> amount (foldl (spec_stepExactIn k) best ps) = None)"
proof (induction ps arbitrary: best)
  case Nil
  then show ?case by simp
next
  case (Cons p ps)
  show ?case
    using Cons.IH [OF spec_stepExactIn_both_or_none [OF Cons.prems]] by simp
qed

lemma spec_foldExactIn_both_or_none:
  "bestRoute (spec_foldExactIn k routes quotes) = None
     \<longleftrightarrow> amount (spec_foldExactIn k routes quotes) = None"
  unfolding spec_foldExactIn_def
  by (rule foldl_spec_stepExactIn_both_or_none) (simp add: initialBest_def)

text \<open>
  C3. Exact input. For routes and quotes aligned by position (no quote beyond the routes),
  the selector returns a result, and its state is the one of the ordered rule: INVALID
  when \<open>amountIn\<close> or \<open>currencyOut\<close> is absent; else LOADING when \<open>routesLoading\<close> holds
  or some quote is loading; else NO_ROUTE_FOUND when the reduction ends without a winner;
  else SYNCING when some quote is syncing, and VALID otherwise. In particular, and for any
  routes and quotes, with both arguments present one loading quote makes the result
  LOADING without a trade, whatever amounts the other quotes carry.
\<close>

theorem useBestV3TradeExactIn_state_rule:
  "(length quotes \<le> length routes \<longrightarrow>
      (\<exists>r. useBestV3TradeExactIn k amountIn currencyOut routes routesLoading quotes = Inr r \<and>
         state r = spec_stateExactIn k amountIn currencyOut routes routesLoading quotes)) \<and>
   (amountIn \<noteq> None \<and> currencyOut \<noteq> None \<and> (\<exists>q \<in> set quotes. loading q) \<longrightarrow>
      useBestV3TradeExactIn k amountIn currencyOut routes routesLoading quotes
        = Inr \<lparr>state = LOADING, trade = None\<rparr>)"
proof (intro conjI impI)
  assume "length quotes \<le> length routes"
  then have red:
    "reduceExactIn k routes initialBest 0 quotes = Inr (spec_foldExactIn k routes quotes)"
    using reduceExactIn_foldl [of 0 quotes routes k initialBest]
    by (simp add: spec_foldExactIn_def)
  show "\<exists>r. useBestV3TradeExactIn k amountIn currencyOut routes routesLoading quotes = Inr r \<and>
         state r = spec_stateExactIn k amountIn currencyOut routes routesLoading quotes"
    using spec_foldExactIn_both_or_none [of k routes quotes]
    by (auto simp: useBestV3TradeExactIn_def spec_stateExactIn_def red list_ex_iff Let_def
        split: option.splits)
next
  assume "amountIn \<noteq> None \<and> currencyOut \<noteq> None \<and> (\<exists>q \<in> set quotes. loading q)"
  then show "useBestV3TradeExactIn k amountIn currencyOut routes routesLoading quotes
        = Inr \<lparr>state = LOADING, trade = None\<rparr>"
    by (auto simp: useBestV3TradeExactIn_def list_ex_iff)
qed

text \<open>The first quote carries an amount, the second one is loading: the state is LOADING.\<close>

theorem useBestV3TradeExactIn_state_rule_witness:
  "length [quote (Some 1000), (quote None)\<lparr>loading := True\<rparr>] \<le> length [route1hop, route3hops] \<and>
   Some fixedAmount \<noteq> None \<and> Some ETHER \<noteq> None \<and>
   (\<exists>q \<in> set [quote (Some 1000), (quote None)\<lparr>loading := True\<rparr>]. loading q) \<and>
   spec_stateExactIn constants_index (Some fixedAmount) (Some ETHER) [route1hop, route3hops] False
     [quote (Some 1000), (quote None)\<lparr>loading := True\<rparr>] = LOADING \<and>
   useBestV3TradeExactIn constants_index (Some fixedAmount) (Some ETHER) [route1hop, route3hops] False
     [quote (Some 1000), (quote None)\<lparr>loading := True\<rparr>] = Inr \<lparr>state = LOADING, trade = None\<rparr>"
  using useBestV3TradeExactIn_state_rule
    [of "[quote (Some 1000), (quote None)\<lparr>loading := True\<rparr>]"
      "[route1hop, route3hops]" constants_index "Some fixedAmount" "Some ETHER" False]
  by (simp add: quote_def spec_stateExactIn_def)

lemma reducerExactIn_valid_update:
  "reducerExactIn k routes best (valid_update f q) i = reducerExactIn k routes best q i"
  by (simp add: reducerExactIn_def)

lemma reduceExactIn_valid_update:
  "reduceExactIn k routes best i (map (valid_update f) qs) = reduceExactIn k routes best i qs"
  by (induction qs arbitrary: best i) (simp_all add: reducerExactIn_valid_update split: sum.splits)

lemma list_ex_valid_update:
  "list_ex loading (map (valid_update f) qs) = list_ex loading qs"
  "list_ex syncing (map (valid_update f) qs) = list_ex syncing qs"
  by (simp_all add: list_ex_iff)

text \<open>
  C4. Exact output: when some quote has \<open>valid = false\<close>, the result is INVALID without a
  trade, whatever the other inputs are; so the check comes before the loading check, and a
  batch with an invalid entry and a loading entry gives INVALID. Exact input has no such
  check: changing the \<open>valid\<close> flags of the quotes in any way leaves its result unchanged.
\<close>

theorem valid_flag_checked_by_exact_out_only:
  "(list_ex (\<lambda>q. \<not> valid q) quotes \<longrightarrow>
      useBestV3TradeExactOut k currencyIn amountOut routes routesLoading quotes
        = Inr \<lparr>state = INVALID, trade = None\<rparr>) \<and>
   useBestV3TradeExactIn k amountIn currencyOut routes routesLoading (map (valid_update f) quotes)
     = useBestV3TradeExactIn k amountIn currencyOut routes routesLoading quotes"
proof
  show "list_ex (\<lambda>q. \<not> valid q) quotes \<longrightarrow>
      useBestV3TradeExactOut k currencyIn amountOut routes routesLoading quotes
        = Inr \<lparr>state = INVALID, trade = None\<rparr>"
    by (simp add: useBestV3TradeExactOut_def split: option.splits)
  show "useBestV3TradeExactIn k amountIn currencyOut routes routesLoading (map (valid_update f) quotes)
     = useBestV3TradeExactIn k amountIn currencyOut routes routesLoading quotes"
    unfolding useBestV3TradeExactIn_def reduceExactIn_valid_update list_ex_valid_update
    by (rule refl)
qed

text \<open>
  A batch with a usable, an invalid and a loading entry: INVALID for an exact output, and
  the same entries with every \<open>valid\<close> flag cleared are LOADING for an exact input.
\<close>

theorem valid_flag_checked_by_exact_out_only_witness:
  "list_ex (\<lambda>q. \<not> valid q)
     [quote (Some 1000), (quote None)\<lparr>valid := False\<rparr>, (quote None)\<lparr>loading := True\<rparr>] \<and>
   list_ex loading
     [quote (Some 1000), (quote None)\<lparr>valid := False\<rparr>, (quote None)\<lparr>loading := True\<rparr>] \<and>
   useBestV3TradeExactOut constants_index (Some ETHER) (Some fixedAmount)
     [route1hop, route3hops, route1hop] False
     [quote (Some 1000), (quote None)\<lparr>valid := False\<rparr>, (quote None)\<lparr>loading := True\<rparr>]
     = Inr \<lparr>state = INVALID, trade = None\<rparr> \<and>
   useBestV3TradeExactIn constants_index (Some fixedAmount) (Some ETHER)
     [route1hop, route3hops, route1hop] False
     (map (valid_update (\<lambda>_. False))
       [quote (Some 1000), (quote None)\<lparr>valid := False\<rparr>, (quote None)\<lparr>loading := True\<rparr>])
     = Inr \<lparr>state = LOADING, trade = None\<rparr>"
  using valid_flag_checked_by_exact_out_only
    [of "[quote (Some 1000), (quote None)\<lparr>valid := False\<rparr>, (quote None)\<lparr>loading := True\<rparr>]"
      constants_index "Some ETHER" "Some fixedAmount" "[route1hop, route3hops, route1hop]" False
      "Some fixedAmount" "Some ETHER" "\<lambda>_. False"]
  by (simp add: quote_def useBestV3TradeExactIn_def)

lemma reduce_without_amounts:
  "\<forall>q \<in> set qs. result q = None \<Longrightarrow>
   reduceExactIn k routes best i qs = Inr best \<and> reduceExactOut k routes best i qs = Inr best"
  by (induction qs arbitrary: i) (simp_all add: reducerExactIn_def reducerExactOut_def)

text \<open>
  C7. Both selectors: with the fixed amount and the other currency present,
  \<open>routesLoading\<close> false, no quote loading (and, for an exact output, every quote valid)
  and no quote carrying an amount, the result is NO_ROUTE_FOUND without a trade. The
  quotes without an amount are passed over and raise nothing; the routes are arbitrary,
  and both lists may be empty.
\<close>

theorem no_usable_amount_gives_NO_ROUTE_FOUND:
  "amountSpecified \<noteq> None \<Longrightarrow> otherCurrency \<noteq> None \<Longrightarrow> \<not> routesLoading \<Longrightarrow>
   \<forall>q \<in> set quotes. \<not> loading q \<and> result q = None \<Longrightarrow>
   useBestV3TradeExactIn k amountSpecified otherCurrency routes routesLoading quotes
     = Inr \<lparr>state = NO_ROUTE_FOUND, trade = None\<rparr> \<and>
   ((\<forall>q \<in> set quotes. valid q) \<longrightarrow>
    useBestV3TradeExactOut k otherCurrency amountSpecified routes routesLoading quotes
     = Inr \<lparr>state = NO_ROUTE_FOUND, trade = None\<rparr>)"
  using reduce_without_amounts [of quotes k routes initialBest 0]
  by (auto simp: useBestV3TradeExactIn_def useBestV3TradeExactOut_def initialBest_def
      list_ex_iff)

text \<open>Two routes whose quotes have settled without an amount.\<close>

theorem no_usable_amount_gives_NO_ROUTE_FOUND_witness:
  "Some fixedAmount \<noteq> None \<and> Some ETHER \<noteq> None \<and> \<not> False \<and>
   \<not> loading (quote None) \<and> result (quote None) = None \<and> valid (quote None) \<and>
   useBestV3TradeExactIn constants_index (Some fixedAmount) (Some ETHER) [route1hop, route3hops]
     False [quote None, quote None] = Inr \<lparr>state = NO_ROUTE_FOUND, trade = None\<rparr> \<and>
   useBestV3TradeExactOut constants_index (Some ETHER) (Some fixedAmount) [route1hop, route3hops]
     False [quote None, quote None] = Inr \<lparr>state = NO_ROUTE_FOUND, trade = None\<rparr>"
  using no_usable_amount_gives_NO_ROUTE_FOUND
    [of "Some fixedAmount" "Some ETHER" False "[quote None, quote None]" constants_index
      "[route1hop, route3hops]"]
  by (simp add: quote_def)

subsection \<open>The trade of the result\<close>

lemma reduceExactIn_sample:
  "reduceExactIn constants_index [route1hop, route3hops] initialBest 0
     [quote (Some 990), (quote (Some 1000))\<lparr>syncing := True\<rparr>]
   = Inr \<lparr>bestRoute = Some route3hops, amount = Some 1000\<rparr>"
  by (simp add: quote_def initialBest_def reducerExactIn_def index_def)

lemma reduceExactOut_sample:
  "reduceExactOut constants_index [route1hop, route3hops] initialBest 0
     [quote (Some 990), (quote (Some 1000))\<lparr>syncing := True\<rparr>]
   = Inr \<lparr>bestRoute = Some route1hop, amount = Some 990\<rparr>"
  by (simp add: quote_def initialBest_def reducerExactOut_def index_def
      constants_index_def Percent_def subtract_def greaterThan_Fraction_def
      belowThresholdExactOut_def route1hop_def route3hops_def)

lemma useBestV3TradeExactIn_sample:
  "useBestV3TradeExactIn constants_index (Some fixedAmount) (Some (TokenCurrency ''B''))
     [route1hop, route3hops] False [quote (Some 990), (quote (Some 1000))\<lparr>syncing := True\<rparr>]
   = Inr \<lparr>state = SYNCING, trade = Some
       \<lparr>route = route3hops, tradeType = EXACT_INPUT, inputAmount = fixedAmount,
        outputAmount = \<lparr>currency = TokenCurrency ''B'', raw = 1000\<rparr>\<rparr>\<rparr>"
  unfolding useBestV3TradeExactIn_def reduceExactIn_sample
  by (simp add: createUncheckedTrade_def TokenAmount_def quote_def)

lemma useBestV3TradeExactOut_sample:
  "useBestV3TradeExactOut constants_index (Some ETHER) (Some (TokenAmount ''B'' 5))
     [route1hop, route3hops] False [quote (Some 990), (quote (Some 1000))\<lparr>syncing := True\<rparr>]
   = Inr \<lparr>state = SYNCING, trade = Some
       \<lparr>route = route1hop, tradeType = EXACT_OUTPUT,
        inputAmount = \<lparr>currency = ETHER, raw = 990\<rparr>, outputAmount = TokenAmount ''B'' 5\<rparr>\<rparr>"
  unfolding useBestV3TradeExactOut_def reduceExactOut_sample
  by (simp add: createUncheckedTrade_def ether_def quote_def)

text \<open>
  C9. Both selectors: whenever a result is returned, its trade is present exactly when its
  state is VALID or SYNCING (so it is absent for INVALID, LOADING and NO_ROUTE_FOUND); and
  a present trade is the complete record of the route that won the reduction, the
  direction of the selector, the fixed amount as given, and the amount that won the
  reduction in the other currency.
\<close>

theorem trade_present_iff_VALID_or_SYNCING:
  "(useBestV3TradeExactIn k amountIn currencyOut routes routesLoading quotes = Inr r \<longrightarrow>
      (trade r \<noteq> None \<longleftrightarrow> state r = VALID \<or> state r = SYNCING) \<and>
      (trade r \<noteq> None \<longrightarrow>
         (\<exists>best bestRoute' amountOut amountIn' currencyOut'.
            reduceExactIn k routes initialBest 0 quotes = Inr best \<and>
            bestRoute best = Some bestRoute' \<and> amount best = Some amountOut \<and>
            amountIn = Some amountIn' \<and> currencyOut = Some currencyOut' \<and>
            trade r = Some \<lparr>route = bestRoute', tradeType = EXACT_INPUT,
              inputAmount = amountIn',
              outputAmount = \<lparr>currency = currencyOut', raw = amountOut\<rparr>\<rparr>))) \<and>
   (useBestV3TradeExactOut k currencyIn amountOut routes routesLoading quotes = Inr r' \<longrightarrow>
      (trade r' \<noteq> None \<longleftrightarrow> state r' = VALID \<or> state r' = SYNCING) \<and>
      (trade r' \<noteq> None \<longrightarrow>
         (\<exists>best bestRoute' amountIn amountOut' currencyIn'.
            reduceExactOut k routes initialBest 0 quotes = Inr best \<and>
            bestRoute best = Some bestRoute' \<and> amount best = Some amountIn \<and>
            amountOut = Some amountOut' \<and> currencyIn = Some currencyIn' \<and>
            trade r' = Some \<lparr>route = bestRoute', tradeType = EXACT_OUTPUT,
              inputAmount = \<lparr>currency = currencyIn', raw = amountIn\<rparr>,
              outputAmount = amountOut'\<rparr>)))"
proof (intro conjI impI)
  assume "useBestV3TradeExactIn k amountIn currencyOut routes routesLoading quotes = Inr r"
  then show "trade r \<noteq> None \<longleftrightarrow> state r = VALID \<or> state r = SYNCING"
    by (auto simp: useBestV3TradeExactIn_def Let_def
        split: option.splits sum.splits if_splits)
next
  assume "useBestV3TradeExactIn k amountIn currencyOut routes routesLoading quotes = Inr r"
    and "trade r \<noteq> None"
  then show "\<exists>best bestRoute' amountOut amountIn' currencyOut'.
            reduceExactIn k routes initialBest 0 quotes = Inr best \<and>
            bestRoute best = Some bestRoute' \<and> amount best = Some amountOut \<and>
            amountIn = Some amountIn' \<and> currencyOut = Some currencyOut' \<and>
            trade r = Some \<lparr>route = bestRoute', tradeType = EXACT_INPUT,
              inputAmount = amountIn',
              outputAmount = \<lparr>currency = currencyOut', raw = amountOut\<rparr>\<rparr>"
    by (auto simp: useBestV3TradeExactIn_def Let_def createUncheckedTrade_def TokenAmount_def
        ether_def split: option.splits sum.splits if_splits Currency.splits)
next
  assume "useBestV3TradeExactOut k currencyIn amountOut routes routesLoading quotes = Inr r'"
  then show "trade r' \<noteq> None \<longleftrightarrow> state r' = VALID \<or> state r' = SYNCING"
    by (auto simp: useBestV3TradeExactOut_def Let_def
        split: option.splits sum.splits if_splits)
next
  assume "useBestV3TradeExactOut k currencyIn amountOut routes routesLoading quotes = Inr r'"
    and "trade r' \<noteq> None"
  then show "\<exists>best bestRoute' amountIn amountOut' currencyIn'.
            reduceExactOut k routes initialBest 0 quotes = Inr best \<and>
            bestRoute best = Some bestRoute' \<and> amount best = Some amountIn \<and>
            amountOut = Some amountOut' \<and> currencyIn = Some currencyIn' \<and>
            trade r' = Some \<lparr>route = bestRoute', tradeType = EXACT_OUTPUT,
              inputAmount = \<lparr>currency = currencyIn', raw = amountIn\<rparr>,
              outputAmount = amountOut'\<rparr>"
    by (auto simp: useBestV3TradeExactOut_def Let_def createUncheckedTrade_def TokenAmount_def
        ether_def split: option.splits sum.splits if_splits Currency.splits)
qed

text \<open>
  Two routes with quotes 990 and 1000, the second one syncing: the exact input trade
  takes the three hops for 1000, the exact output trade the single hop for 990.
\<close>

theorem trade_present_iff_VALID_or_SYNCING_witness:
  "useBestV3TradeExactIn constants_index (Some fixedAmount) (Some (TokenCurrency ''B''))
     [route1hop, route3hops] False [quote (Some 990), (quote (Some 1000))\<lparr>syncing := True\<rparr>]
     = Inr \<lparr>state = SYNCING, trade = Some
         \<lparr>route = route3hops, tradeType = EXACT_INPUT, inputAmount = fixedAmount,
          outputAmount = \<lparr>currency = TokenCurrency ''B'', raw = 1000\<rparr>\<rparr>\<rparr> \<and>
   reduceExactIn constants_index [route1hop, route3hops] initialBest 0
     [quote (Some 990), (quote (Some 1000))\<lparr>syncing := True\<rparr>]
     = Inr \<lparr>bestRoute = Some route3hops, amount = Some 1000\<rparr> \<and>
   useBestV3TradeExactOut constants_index (Some ETHER) (Some (TokenAmount ''B'' 5))
     [route1hop, route3hops] False [quote (Some 990), (quote (Some 1000))\<lparr>syncing := True\<rparr>]
     = Inr \<lparr>state = SYNCING, trade = Some
         \<lparr>route = route1hop, tradeType = EXACT_OUTPUT,
          inputAmount = \<lparr>currency = ETHER, raw = 990\<rparr>, outputAmount = TokenAmount ''B'' 5\<rparr>\<rparr> \<and>
   reduceExactOut constants_index [route1hop, route3hops] initialBest 0
     [quote (Some 990), (quote (Some 1000))\<lparr>syncing := True\<rparr>]
     = Inr \<lparr>bestRoute = Some route1hop, amount = Some 990\<rparr>"
proof -
  let ?rin = "\<lparr>state = SYNCING, trade = Some
         \<lparr>route = route3hops, tradeType = EXACT_INPUT, inputAmount = fixedAmount,
          outputAmount = \<lparr>currency = TokenCurrency ''B'', raw = 1000\<rparr>\<rparr>\<rparr>"
  let ?rout = "\<lparr>state = SYNCING, trade = Some
         \<lparr>route = route1hop, tradeType = EXACT_OUTPUT,
          inputAmount = \<lparr>currency = ETHER, raw = 990\<rparr>, outputAmount = TokenAmount ''B'' 5\<rparr>\<rparr>"
  note w = trade_present_iff_VALID_or_SYNCING [of constants_index "Some fixedAmount"
     "Some (TokenCurrency ''B'')" "[route1hop, route3hops]" False
     "[quote (Some 990), (quote (Some 1000))\<lparr>syncing := True\<rparr>]" ?rin
     "Some ETHER" "Some (TokenAmount ''B'' 5)" ?rout]
  have tin: "trade ?rin \<noteq> None" and tout: "trade ?rout \<noteq> None"
    by simp_all
  from w [THEN conjunct1, THEN mp, OF useBestV3TradeExactIn_sample, THEN conjunct2, THEN mp, OF tin]
  have i: "reduceExactIn constants_index [route1hop, route3hops] initialBest 0
       [quote (Some 990), (quote (Some 1000))\<lparr>syncing := True\<rparr>]
     = Inr \<lparr>bestRoute = Some route3hops, amount = Some 1000\<rparr>"
    by auto
  from w [THEN conjunct2, THEN mp, OF useBestV3TradeExactOut_sample, THEN conjunct2, THEN mp, OF tout]
  have o: "reduceExactOut constants_index [route1hop, route3hops] initialBest 0
       [quote (Some 990), (quote (Some 1000))\<lparr>syncing := True\<rparr>]
     = Inr \<lparr>bestRoute = Some route1hop, amount = Some 990\<rparr>"
    by auto
  show ?thesis
    using useBestV3TradeExactIn_sample useBestV3TradeExactOut_sample i o by simp
qed

section \<open>The fewer-hops branch of the exact output reduction\<close>

lemma subtract_from_one_hundred_percent_sign:
  assumes h: "wholeOneHundredPercent k" and le: "B \<le> R"
  shows "numerator (subtract (ONE_HUNDRED_PERCENT k) (Percent (int R) (int B))) \<le> 0"
    and "0 \<le> denominator (subtract (ONE_HUNDRED_PERCENT k) (Percent (int R) (int B)))"
proof -
  let ?n = "denominator (ONE_HUNDRED_PERCENT k)"
  let ?d = "subtract (ONE_HUNDRED_PERCENT k) (Percent (int R) (int B))"
  from h have hn: "numerator (ONE_HUNDRED_PERCENT k) = ?n" and n: "0 < ?n"
    by (simp_all add: wholeOneHundredPercent_def)
  show "numerator ?d \<le> 0"
  proof (cases "?n = int B")
    case True
    then show ?thesis
      using le by (simp add: subtract_def Percent_def hn)
  next
    case False
    have "?n * int B - int R * ?n = ?n * (int B - int R)"
      by (simp add: algebra_simps)
    moreover have "?n * (int B - int R) \<le> 0"
      using n le by (simp add: mult_le_0_iff)
    ultimately show ?thesis
      using False by (simp add: subtract_def Percent_def hn)
  qed
  show "0 \<le> denominator ?d"
    using n by (simp add: subtract_def Percent_def)
qed

lemma belowThresholdExactOut_never:
  assumes t: "nonnegativeThreshold k" and h: "wholeOneHundredPercent k" and le: "B \<le> R"
  shows "\<not> belowThresholdExactOut k B R"
proof -
  let ?tn = "numerator (BETTER_TRADE_LESS_HOPS_THRESHOLD k)"
  let ?td = "denominator (BETTER_TRADE_LESS_HOPS_THRESHOLD k)"
  let ?d = "subtract (ONE_HUNDRED_PERCENT k) (Percent (int R) (int B))"
  from t have tn: "0 \<le> ?tn" and td: "0 < ?td"
    by (simp_all add: nonnegativeThreshold_def)
  note num = subtract_from_one_hundred_percent_sign(1) [OF h le]
  note den = subtract_from_one_hundred_percent_sign(2) [OF h le]
  have "numerator ?d * ?td \<le> 0"
    using num td by (simp add: mult_le_0_iff)
  moreover have "0 \<le> ?tn * denominator ?d"
    using tn den by simp
  ultimately show ?thesis
    by (simp add: belowThresholdExactOut_def greaterThan_Fraction_def)
qed

lemma reducerExactOut_minimum_step:
  assumes "nonnegativeThreshold k" and "wholeOneHundredPercent k" and "i < length routes"
  shows "reducerExactOut k routes best q i =
     Inr (case result q of
            None \<Rightarrow> best
          | Some R \<Rightarrow>
              (case amount best of
                 None \<Rightarrow> \<lparr>bestRoute = Some (routes ! i), amount = Some R\<rparr>
               | Some B \<Rightarrow>
                   if R < B then \<lparr>bestRoute = Some (routes ! i), amount = Some R\<rparr> else best))"
  using assms belowThresholdExactOut_never [of k]
  by (auto simp: reducerExactOut_def index_def Let_def split: option.splits)

lemma reduceExactOut_append:
  "reduceExactOut k routes best i (qs @ [q]) =
     (case reduceExactOut k routes best i qs of
        Inl e \<Rightarrow> Inl e
      | Inr best' \<Rightarrow> reducerExactOut k routes best' q (i + length qs))"
  by (induction qs arbitrary: best i) (simp_all split: sum.splits)

lemma firstMinimum_unique:
  assumes "firstMinimum qs i a" and "firstMinimum qs j b"
  shows "i = j \<and> a = b"
proof -
  from assms have "a \<le> b" and "b \<le> a"
    by (auto simp: firstMinimum_def)
  then have ab: "a = b" by simp
  have "\<not> i < j" and "\<not> j < i"
    using assms ab by (auto simp: firstMinimum_def)
  then show ?thesis using ab by simp
qed

text \<open>
  After any prefix of the quotes the accumulator is the initial one when the prefix has no
  usable amount, and otherwise the route and amount at the first minimum of the prefix.
\<close>

lemma reduceExactOut_minimum_inv:
  assumes t: "nonnegativeThreshold k" and h: "wholeOneHundredPercent k"
  shows "length qs \<le> length routes \<Longrightarrow>
    (if \<forall>q \<in> set qs. result q = None
     then reduceExactOut k routes initialBest 0 qs = Inr initialBest
     else \<exists>i a. firstMinimum qs i a \<and>
            reduceExactOut k routes initialBest 0 qs
              = Inr \<lparr>bestRoute = Some (routes ! i), amount = Some a\<rparr>)"
proof (induction qs rule: rev_induct)
  case Nil
  then show ?case by simp
next
  case (snoc q qs)
  then have len: "length qs < length routes" and len': "length qs \<le> length routes"
    by simp_all
  note IH = snoc.IH [OF len']
  note step = reducerExactOut_minimum_step [OF t h len]
  show ?case
  proof (cases "result q")
    case None
    show ?thesis
    proof (cases "\<forall>q \<in> set qs. result q = None")
      case True
      then show ?thesis
        using IH None by (simp add: reduceExactOut_append step)
    next
      case False
      with IH obtain i a where fm: "firstMinimum qs i a"
        and red: "reduceExactOut k routes initialBest 0 qs
              = Inr \<lparr>bestRoute = Some (routes ! i), amount = Some a\<rparr>"
        by auto
      have "firstMinimum (qs @ [q]) i a"
        using fm None by (auto simp: firstMinimum_def nth_append less_Suc_eq)
      then show ?thesis
        using False red None by (auto simp: reduceExactOut_append step)
    qed
  next
    case (Some R)
    show ?thesis
    proof (cases "\<forall>q \<in> set qs. result q = None")
      case True
      then have "\<forall>j < length qs. result (qs ! j) = None"
        by simp
      then have "firstMinimum (qs @ [q]) (length qs) R"
        using Some by (auto simp: firstMinimum_def nth_append less_Suc_eq)
      moreover have "reduceExactOut k routes initialBest 0 (qs @ [q])
          = Inr \<lparr>bestRoute = Some (routes ! length qs), amount = Some R\<rparr>"
        using IH True Some by (simp add: reduceExactOut_append step initialBest_def)
      ultimately show ?thesis
        using Some by auto
    next
      case False
      with IH obtain i a where fm: "firstMinimum qs i a"
        and red: "reduceExactOut k routes initialBest 0 qs
              = Inr \<lparr>bestRoute = Some (routes ! i), amount = Some a\<rparr>"
        by auto
      show ?thesis
      proof (cases "R < a")
        case True
        have "firstMinimum (qs @ [q]) (length qs) R"
          using fm Some True by (fastforce simp: firstMinimum_def nth_append less_Suc_eq)
        moreover have "reduceExactOut k routes initialBest 0 (qs @ [q])
            = Inr \<lparr>bestRoute = Some (routes ! length qs), amount = Some R\<rparr>"
          using red Some True by (simp add: reduceExactOut_append step)
        ultimately show ?thesis
          using Some by auto
      next
        case False
        have "firstMinimum (qs @ [q]) i a"
          using fm Some False by (auto simp: firstMinimum_def nth_append less_Suc_eq)
        moreover have "reduceExactOut k routes initialBest 0 (qs @ [q])
            = Inr \<lparr>bestRoute = Some (routes ! i), amount = Some a\<rparr>"
          using red Some False by (simp add: reduceExactOut_append step)
        ultimately show ?thesis
          using Some by auto
      qed
    qed
  qed
qed

text \<open>
  C6. Exact output, for a threshold that is a nonnegative fraction (a numerator of at
  least 0 over a positive denominator) and one hundred percent held as a fraction equal to
  one: whenever the candidate input \<open>R\<close> is at least the best input \<open>B\<close>, the difference
  \<open>ONE_HUNDRED_PERCENT - Percent(R, B)\<close> has a numerator of at most 0 over a denominator
  of at least 0, and it is not greater than the threshold, so the fewer-hops branch is
  never taken. Hence, for routes and quotes aligned by position, the reduction returns
  the route and amount at the first index, in list order, whose quote carries the least
  usable amount, whatever the token paths of the routes.
\<close>

theorem exactOut_fewer_hops_branch_never_taken:
  assumes "nonnegativeThreshold k" and "wholeOneHundredPercent k"
  shows "(B \<le> R \<longrightarrow>
       numerator (subtract (ONE_HUNDRED_PERCENT k) (Percent (int R) (int B))) \<le> 0 \<and>
       0 \<le> denominator (subtract (ONE_HUNDRED_PERCENT k) (Percent (int R) (int B))) \<and>
       \<not> belowThresholdExactOut k B R) \<and>
    (length quotes \<le> length routes \<and> firstMinimum quotes i a \<longrightarrow>
       reduceExactOut k routes initialBest 0 quotes
         = Inr \<lparr>bestRoute = Some (routes ! i), amount = Some a\<rparr>)"
proof (intro conjI impI)
  assume le: "B \<le> R"
  show "numerator (subtract (ONE_HUNDRED_PERCENT k) (Percent (int R) (int B))) \<le> 0"
    using assms(2) le by (rule subtract_from_one_hundred_percent_sign(1))
  show "0 \<le> denominator (subtract (ONE_HUNDRED_PERCENT k) (Percent (int R) (int B)))"
    using assms(2) le by (rule subtract_from_one_hundred_percent_sign(2))
  show "\<not> belowThresholdExactOut k B R"
    using assms le by (rule belowThresholdExactOut_never)
next
  assume a: "length quotes \<le> length routes \<and> firstMinimum quotes i a"
  then have "\<not> (\<forall>q \<in> set quotes. result q = None)"
    by (auto simp: firstMinimum_def)
  with reduceExactOut_minimum_inv [OF assms, of quotes routes] a
  obtain j b where "firstMinimum quotes j b"
    and red: "reduceExactOut k routes initialBest 0 quotes
         = Inr \<lparr>bestRoute = Some (routes ! j), amount = Some b\<rparr>"
    by auto
  with a firstMinimum_unique [of quotes i a j b] show
    "reduceExactOut k routes initialBest 0 quotes
         = Inr \<lparr>bestRoute = Some (routes ! i), amount = Some a\<rparr>"
    by simp
qed

lemma firstMinimum_sample:
  "firstMinimum [quote (Some 1001), quote None, quote (Some 1000), quote (Some 1000)] 2 1000"
  by (simp add: firstMinimum_def quote_def numeral_2_eq_2 All_less_Suc)

text \<open>
  The least input, 1000, is quoted at indices 2 and 3; the route at index 2 wins over the
  shorter route at index 3.
\<close>

theorem exactOut_fewer_hops_branch_never_taken_witness:
  "nonnegativeThreshold constants_index \<and> wholeOneHundredPercent constants_index \<and>
   (1000::nat) \<le> 1001 \<and> \<not> belowThresholdExactOut constants_index 1000 1001 \<and>
   length [quote (Some 1001), quote None, quote (Some 1000), quote (Some 1000)]
     \<le> length [route1hop, route3hops, route3hops, route1hop] \<and>
   firstMinimum [quote (Some 1001), quote None, quote (Some 1000), quote (Some 1000)] 2 1000 \<and>
   reduceExactOut constants_index [route1hop, route3hops, route3hops, route1hop] initialBest 0
     [quote (Some 1001), quote None, quote (Some 1000), quote (Some 1000)]
     = Inr \<lparr>bestRoute = Some route3hops, amount = Some 1000\<rparr>"
proof -
  have t: "nonnegativeThreshold constants_index"
    by (simp add: nonnegativeThreshold_def constants_index_def Percent_def)
  have h: "wholeOneHundredPercent constants_index"
    by (simp add: wholeOneHundredPercent_def constants_index_def Percent_def)
  show ?thesis
    using exactOut_fewer_hops_branch_never_taken [OF t h, of 1000 1001
        "[quote (Some 1001), quote None, quote (Some 1000), quote (Some 1000)]"
        "[route1hop, route3hops, route3hops, route1hop]" 2 1000] t h firstMinimum_sample
    by simp
qed

text \<open>
  C5. Exact output with the constants of the specification (a threshold of 50 basis
  points). The best is a route of three hops with input 1000, the candidate a route of one
  hop with input 1001. The candidate has fewer hops and its extra input, 1/1000 of the
  best's input, is less than the threshold; yet the reduction keeps the route of three
  hops.
\<close>

theorem exactOut_fewer_hops_within_threshold_rejected:
  "hopCount route1hop < hopCount route3hops \<and>
   lessThan_Fraction (Percent (1001 - 1000) 1000) (BETTER_TRADE_LESS_HOPS_THRESHOLD constants_index) \<and>
   reduceExactOut constants_index [route3hops, route1hop] initialBest 0
     [quote (Some 1000), quote (Some 1001)]
   = Inr \<lparr>bestRoute = Some route3hops, amount = Some 1000\<rparr>"
  by (simp add: quote_def initialBest_def reducerExactOut_def index_def
      constants_index_def Percent_def subtract_def greaterThan_Fraction_def lessThan_Fraction_def
      belowThresholdExactOut_def route1hop_def route3hops_def hopCount_def)

section \<open>Repeated invocations\<close>

lemma useMemo_consistent:
  assumes "cell = None \<or> (\<exists>d v. cell = Some (d, v) \<and> f d = Inr v)"
  shows "fst (useMemo cell (\<lambda>_. f deps) deps) = f deps \<and>
    (snd (useMemo cell (\<lambda>_. f deps) deps) = None \<or>
     (\<exists>d v. snd (useMemo cell (\<lambda>_. f deps) deps) = Some (d, v) \<and> f d = Inr v))"
  using assms by (auto simp: useMemo_def Let_def split: sum.splits option.splits)

lemma rendersExactIn_map:
  "cell = None \<or> (\<exists>a c qs rs rl v. cell = Some ((a, c, qs, rs, rl), v) \<and>
      useBestV3TradeExactIn k a c rs rl qs = Inr v) \<Longrightarrow>
   rendersExactIn k cell xs =
     map (\<lambda>(a, c, rs, rl, qs). useBestV3TradeExactIn k a c rs rl qs) xs"
proof (induction xs arbitrary: cell)
  case Nil
  then show ?case by simp
next
  case (Cons x xs)
  obtain a c rs rl qs where x: "x = (a, c, rs, rl, qs)"
    by (cases x) auto
  let ?f = "\<lambda>d. case d of (a, c, qs, rs, rl) \<Rightarrow> useBestV3TradeExactIn k a c rs rl qs"
  have ok: "cell = None \<or> (\<exists>d v. cell = Some (d, v) \<and> ?f d = Inr v)"
    using Cons.prems by auto
  have m: "useBestV3TradeExactIn_memo k cell a c rs rl qs
      = useMemo cell (\<lambda>_. ?f (a, c, qs, rs, rl)) (a, c, qs, rs, rl)"
    by (simp add: useBestV3TradeExactIn_memo_def)
  obtain res cell' where r: "useBestV3TradeExactIn_memo k cell a c rs rl qs = (res, cell')"
    by (cases "useBestV3TradeExactIn_memo k cell a c rs rl qs") auto
  from useMemo_consistent [of cell ?f "(a, c, qs, rs, rl)", OF ok]
  have res: "res = useBestV3TradeExactIn k a c rs rl qs"
    and cell': "cell' = None \<or> (\<exists>d v. cell' = Some (d, v) \<and> ?f d = Inr v)"
    using r m by simp_all
  from cell' have "cell' = None \<or> (\<exists>a c qs rs rl v. cell' = Some ((a, c, qs, rs, rl), v) \<and>
      useBestV3TradeExactIn k a c rs rl qs = Inr v)"
    by auto
  from Cons.IH [OF this] show ?case
    by (simp add: x r res)
qed

lemma rendersExactOut_map:
  "cell = None \<or> (\<exists>a c qs rs rl v. cell = Some ((a, c, qs, rs, rl), v) \<and>
      useBestV3TradeExactOut k c a rs rl qs = Inr v) \<Longrightarrow>
   rendersExactOut k cell xs =
     map (\<lambda>(a, c, rs, rl, qs). useBestV3TradeExactOut k c a rs rl qs) xs"
proof (induction xs arbitrary: cell)
  case Nil
  then show ?case by simp
next
  case (Cons x xs)
  obtain a c rs rl qs where x: "x = (a, c, rs, rl, qs)"
    by (cases x) auto
  let ?f = "\<lambda>d. case d of (a, c, qs, rs, rl) \<Rightarrow> useBestV3TradeExactOut k c a rs rl qs"
  have ok: "cell = None \<or> (\<exists>d v. cell = Some (d, v) \<and> ?f d = Inr v)"
    using Cons.prems by auto
  have m: "useBestV3TradeExactOut_memo k cell c a rs rl qs
      = useMemo cell (\<lambda>_. ?f (a, c, qs, rs, rl)) (a, c, qs, rs, rl)"
    by (simp add: useBestV3TradeExactOut_memo_def)
  obtain res cell' where r: "useBestV3TradeExactOut_memo k cell c a rs rl qs = (res, cell')"
    by (cases "useBestV3TradeExactOut_memo k cell c a rs rl qs") auto
  from useMemo_consistent [of cell ?f "(a, c, qs, rs, rl)", OF ok]
  have res: "res = useBestV3TradeExactOut k c a rs rl qs"
    and cell': "cell' = None \<or> (\<exists>d v. cell' = Some (d, v) \<and> ?f d = Inr v)"
    using r m by simp_all
  from cell' have "cell' = None \<or> (\<exists>a c qs rs rl v. cell' = Some ((a, c, qs, rs, rl), v) \<and>
      useBestV3TradeExactOut k c a rs rl qs = Inr v)"
    by auto
  from Cons.IH [OF this] show ?case
    by (simp add: x r res)
qed

text \<open>
  C10. Both hooks, over any sequence of renders of a component from its mount (an empty
  memo cell): two renders with the same inputs (fixed amount, other currency, routes,
  loading flag of the routes, quotes) return the same result, and the result of a render
  is the value of the selection on the inputs of that render alone. The memo cell, the
  only state that a hook keeps between renders, has no influence on what is returned,
  and nothing is drawn at random.
\<close>

theorem selection_deterministic:
  assumes "i < length xs" and "j < length xs" and "xs ! i = xs ! j"
  shows "rendersExactIn k None xs ! i = rendersExactIn k None xs ! j \<and>
    rendersExactOut k None xs ! i = rendersExactOut k None xs ! j \<and>
    rendersExactIn k None xs ! i =
      (case xs ! i of (amountIn, currencyOut, routes, routesLoading, quotes) \<Rightarrow>
         useBestV3TradeExactIn k amountIn currencyOut routes routesLoading quotes) \<and>
    rendersExactOut k None xs ! i =
      (case xs ! i of (amountOut, currencyIn, routes, routesLoading, quotes) \<Rightarrow>
         useBestV3TradeExactOut k currencyIn amountOut routes routesLoading quotes)"
proof -
  have "rendersExactIn k None xs =
      map (\<lambda>(a, c, rs, rl, qs). useBestV3TradeExactIn k a c rs rl qs) xs"
    by (rule rendersExactIn_map) simp
  moreover have "rendersExactOut k None xs =
      map (\<lambda>(a, c, rs, rl, qs). useBestV3TradeExactOut k c a rs rl qs) xs"
    by (rule rendersExactOut_map) simp
  ultimately show ?thesis
    using assms by simp
qed

lemma rendersExactIn_sample:
  "rendersExactIn constants_index None [firstRender, secondRender, firstRender] =
     [Inr \<lparr>state = VALID, trade = Some (createUncheckedTrade route1hop EXACT_INPUT fixedAmount (ether 1000))\<rparr>,
      Inr \<lparr>state = LOADING, trade = None\<rparr>,
      Inr \<lparr>state = VALID, trade = Some (createUncheckedTrade route1hop EXACT_INPUT fixedAmount (ether 1000))\<rparr>]"
  by (simp add: firstRender_def secondRender_def useBestV3TradeExactIn_memo_def useMemo_def
      useBestV3TradeExactIn_def quote_def initialBest_def reducerExactIn_def index_def)

text \<open>Three renders, the first and the third with the same inputs.\<close>

theorem selection_deterministic_witness:
  "(0::nat) < length [firstRender, secondRender, firstRender] \<and>
   (2::nat) < length [firstRender, secondRender, firstRender] \<and>
   [firstRender, secondRender, firstRender] ! 0 = [firstRender, secondRender, firstRender] ! 2 \<and>
   rendersExactIn constants_index None [firstRender, secondRender, firstRender] ! 0
     = rendersExactIn constants_index None [firstRender, secondRender, firstRender] ! 2 \<and>
   rendersExactOut constants_index None [firstRender, secondRender, firstRender] ! 0
     = rendersExactOut constants_index None [firstRender, secondRender, firstRender] ! 2 \<and>
   rendersExactIn constants_index None [firstRender, secondRender, firstRender] ! 0
     = Inr \<lparr>state = VALID, trade = Some (createUncheckedTrade route1hop EXACT_INPUT fixedAmount (ether 1000))\<rparr>"
  using selection_deterministic [of 0 "[firstRender, secondRender, firstRender]" 2 constants_index]
    rendersExactIn_sample
  by simp

end
